theory Spec2Isabelle
  imports Main "HOL-Library.Word"
begin

section \<open>The gearman state structure of libgearman/state.h\<close>

text \<open>
  The header declares \<open>struct gearman_state_st\<close>, six inline functions over it and the
  prototypes of the functions implemented elsewhere in the library. The structure is
  embedded as a record, field by field and under the names of the header. The inline
  functions are embedded from their bodies: a \<open>void\<close> function that assigns through its
  pointer argument is a function from the structure to the structure; a function that
  returns a value is a function from the structure to the pair of the value returned and
  the structure it leaves behind, so that what a call writes is part of its result.
\<close>

subsection \<open>Types the header uses but does not declare\<close>

text \<open>
  \<open>gearman_connection_st\<close>, \<open>gearman_packet_st\<close> and \<open>struct pollfd\<close> are declared in
  other headers; nothing in state.h looks inside them.
\<close>

typedecl gearman_connection_st

typedecl gearman_packet_st

typedecl pollfd

text \<open>\<open>gearman_verbose_t\<close> is a C enumeration declared elsewhere: a value of it is an int.\<close>

type_synonym gearman_verbose_t = int

text \<open>
  A function pointer or a \<open>const void *\<close> context: \<open>None\<close> is NULL, \<open>Some a\<close> the
  address \<open>a\<close>. The header never dereferences one.
\<close>

type_synonym c_ptr = "nat option"

text \<open>The terminator of a C string.\<close>

abbreviation NUL :: char where
  "NUL \<equiv> CHR 0x00"

subsection \<open>struct gearman_state_st\<close>

text \<open>The anonymous bit-field structure \<open>options\<close>: four one-bit booleans.\<close>

record gearman_state_options =
  allocated :: bool
  dont_track_packets :: bool
  non_blocking :: bool
  stored_non_blocking :: bool

text \<open>
  \<open>con_list\<close> and \<open>packet_list\<close> are the heads of the linked lists the structure owns
  (NULL is the empty list), \<open>pfds\<close> the poll descriptor array, and \<open>last_error\<close> the
  array \<open>char last_error[GEARMAN_MAX_ERROR_SIZE]\<close>: a list of chars whose length is the
  size of the array. The four \<open>uint32_t\<close> counters are 32-bit words; the two \<open>int\<close>
  fields are only stored and read back, never computed with, and are plain integers.
\<close>

record gearman_state_st =
  options :: gearman_state_options
  verbose :: gearman_verbose_t
  con_count :: "32 word"
  packet_count :: "32 word"
  pfds_size :: "32 word"
  sending :: "32 word"
  last_errno :: int
  timeout :: int
  con_list :: "gearman_connection_st list"
  packet_list :: "gearman_packet_st list"
  pfds :: "pollfd list"
  log_fn :: c_ptr
  log_context :: c_ptr
  event_watch_fn :: c_ptr
  event_watch_context :: c_ptr
  workload_malloc_fn :: c_ptr
  workload_malloc_context :: c_ptr
  workload_free_fn :: c_ptr
  workload_free_context :: c_ptr
  last_error :: string

text \<open>
  The string a \<open>const char *\<close> denotes: the chars of the buffer before its first NUL.
\<close>

definition c_str :: "string \<Rightarrow> string" where
  "c_str buf = takeWhile (\<lambda>c. c \<noteq> NUL) buf"

text \<open>
  A zero-filled structure whose error buffer has \<open>n\<close> bytes (what \<open>calloc\<close> or
  \<open>memset\<close> to zero leaves): the base of the concrete structures of the examples.
\<close>

definition gearman_state_zero :: "nat \<Rightarrow> gearman_state_st" where
  "gearman_state_zero n =
     \<lparr>options = \<lparr>allocated = False, dont_track_packets = False,
                 non_blocking = False, stored_non_blocking = False\<rparr>,
      verbose = 0, con_count = 0, packet_count = 0, pfds_size = 0, sending = 0,
      last_errno = 0, timeout = 0, con_list = [], packet_list = [], pfds = [],
      log_fn = None, log_context = None,
      event_watch_fn = None, event_watch_context = None,
      workload_malloc_fn = None, workload_malloc_context = None,
      workload_free_fn = None, workload_free_context = None,
      last_error = replicate n NUL\<rparr>"

subsection \<open>The inline functions\<close>

text \<open>
  \<open>gearman_state_error\<close>: NULL when the first byte of the buffer is 0, the address of
  the buffer otherwise. The pointer returned is modelled by the buffer it points to.
  The array has at least one element, so index 0 is in range.
\<close>

definition gearman_state_error :: "gearman_state_st \<Rightarrow> string option \<times> gearman_state_st" where
  "gearman_state_error gearman =
     (if last_error gearman ! 0 = NUL then (None, gearman)
      else (Some (last_error gearman), gearman))"

definition gearman_state_errno :: "gearman_state_st \<Rightarrow> int \<times> gearman_state_st" where
  "gearman_state_errno gearman = (last_errno gearman, gearman)"

text \<open>
  \<open>gearman_set_option\<close> is only declared in the header; \<open>gearman_add_options\<close> and
  \<open>gearman_remove_options\<close> take it as their first argument. It receives the structure,
  the option and the value, and gives back its return code and the structure; both
  callers cast the return code to void.
\<close>

definition gearman_add_options ::
  "(gearman_state_st \<Rightarrow> 'opt \<Rightarrow> bool \<Rightarrow> 'ret \<times> gearman_state_st) \<Rightarrow>
   gearman_state_st \<Rightarrow> 'opt \<Rightarrow> gearman_state_st" where
  "gearman_add_options gearman_set_option gearman opts =
     snd (gearman_set_option gearman opts True)"

definition gearman_remove_options ::
  "(gearman_state_st \<Rightarrow> 'opt \<Rightarrow> bool \<Rightarrow> 'ret \<times> gearman_state_st) \<Rightarrow>
   gearman_state_st \<Rightarrow> 'opt \<Rightarrow> gearman_state_st" where
  "gearman_remove_options gearman_set_option gearman opts =
     snd (gearman_set_option gearman opts True)"

definition gearman_state_is_non_blocking :: "gearman_state_st \<Rightarrow> bool \<times> gearman_state_st" where
  "gearman_state_is_non_blocking gearman = (non_blocking (options gearman), gearman)"

definition gearman_state_is_stored_non_blocking ::
  "gearman_state_st \<Rightarrow> bool \<times> gearman_state_st" where
  "gearman_state_is_stored_non_blocking gearman =
     (stored_non_blocking (options gearman), gearman)"

text \<open>The two assignments of \<open>gearman_state_push_non_blocking\<close>, in their order.\<close>

definition gearman_state_push_non_blocking :: "gearman_state_st \<Rightarrow> gearman_state_st" where
  "gearman_state_push_non_blocking gearman =
     (let g1 = gearman\<lparr>options :=
                 (options gearman)\<lparr>stored_non_blocking := non_blocking (options gearman)\<rparr>\<rparr>
      in g1\<lparr>options := (options g1)\<lparr>non_blocking := True\<rparr>\<rparr>)"

definition gearman_state_pop_non_blocking :: "gearman_state_st \<Rightarrow> gearman_state_st" where
  "gearman_state_pop_non_blocking gearman =
     gearman\<lparr>options :=
       (options gearman)\<lparr>non_blocking := stored_non_blocking (options gearman)\<rparr>\<rparr>"

subsection \<open>Functions the header only declares\<close>

text \<open>
  Modelled from the spec: \<open>gearman_state_set_error\<close> is only declared in state.h, its
  body is not part of the sources at hand. The spec (4.3) has it render a formatted
  message into \<open>last_error\<close>, truncating where the message exceeds the fixed capacity,
  without overflowing the buffer and leaving a terminated string; the origin label is
  incorporated in the message, and \<open>last_errno\<close> is not set. The formatting itself (the
  printf conversions and the way the label enters the message) is the argument
  \<open>render\<close>; the capacity is the size of the array, \<open>length (last_error gearman)\<close>.
  The call writes the chars of the message that fit before the last byte and the
  terminator after them; the bytes of the buffer behind the terminator are not written
  and keep what an earlier call left there.
\<close>

definition gearman_state_set_error ::
  "(string \<Rightarrow> string \<Rightarrow> 'a list \<Rightarrow> string) \<Rightarrow>
   gearman_state_st \<Rightarrow> string \<Rightarrow> string \<Rightarrow> 'a list \<Rightarrow> gearman_state_st" where
  "gearman_state_set_error render gearman function format args =
     (let msg = take (length (last_error gearman) - 1) (c_str (render function format args))
      in gearman\<lparr>last_error := msg @ NUL # drop (length msg + 1) (last_error gearman)\<rparr>)"

text \<open>
  A sequence of \<open>gearman_state_set_error\<close> calls on one structure, each given by its
  function label, format and arguments, run from left to right.
\<close>

fun set_error_calls ::
  "(string \<Rightarrow> string \<Rightarrow> 'a list \<Rightarrow> string) \<Rightarrow>
   gearman_state_st \<Rightarrow> (string \<times> string \<times> 'a list) list \<Rightarrow> gearman_state_st" where
  "set_error_calls render gearman [] = gearman"
| "set_error_calls render gearman ((function, format, args) # calls) =
     set_error_calls render (gearman_state_set_error render gearman function format args) calls"

text \<open>
  Modelled from the spec: \<open>gearman_state_clone\<close> is only declared in state.h, its body
  is not part of the sources at hand. The header documents its first argument as a
  caller allocated structure, or NULL to allocate one, and its return value as that of
  \<open>gearman_state_create\<close>: the structure, or NULL on failure, to be checked even when
  a pre-allocated structure is passed in, since some other initialisation may have
  failed. The spec (4.1) has clone create a new structure copying the source's option
  flags, timeout, verbosity threshold and callback registrations, and not its connection
  or packet collections: a clone starts with empty collections and inherits
  configuration, not session state. \<open>gearman\<close> is the caller's storage, if any;
  \<open>malloc_result\<close> is what the allocator gives when asked (\<open>None\<close> on failure, otherwise
  the fresh memory with whatever it contains); \<open>init_ok\<close> tells whether the rest of the
  initialisation succeeds. The new structure has no session state: zero counts, no
  poll array, no system error, and an empty error string.
\<close>

definition gearman_state_clone ::
  "gearman_state_st option \<Rightarrow> gearman_state_st option \<Rightarrow> bool \<Rightarrow> gearman_state_st \<Rightarrow>
   gearman_state_st option" where
  "gearman_state_clone gearman malloc_result init_ok from =
     (case (case gearman of Some mem \<Rightarrow> Some mem | None \<Rightarrow> malloc_result) of
        None \<Rightarrow> None
      | Some mem \<Rightarrow>
          if init_ok then
            Some (mem\<lparr>options := options from,
                      verbose := verbose from,
                      con_count := 0, packet_count := 0, pfds_size := 0, sending := 0,
                      last_errno := 0,
                      timeout := timeout from,
                      con_list := [], packet_list := [], pfds := [],
                      log_fn := log_fn from, log_context := log_context from,
                      event_watch_fn := event_watch_fn from,
                      event_watch_context := event_watch_context from,
                      workload_malloc_fn := workload_malloc_fn from,
                      workload_malloc_context := workload_malloc_context from,
                      workload_free_fn := workload_free_fn from,
                      workload_free_context := workload_free_context from,
                      last_error := (last_error mem)[0 := NUL]\<rparr>)
          else None)"

section \<open>The non-blocking mode and its one-slot save\<close>

text \<open>
  C1. A push followed at once by a pop leaves the \<open>non_blocking\<close> flag as it was before
  the push, whichever value it had; the pair changes nothing but the saved slot, which
  then holds that value too.
\<close>

theorem push_pop_restores_non_blocking:
  "non_blocking (options (gearman_state_pop_non_blocking
       (gearman_state_push_non_blocking g))) = non_blocking (options g)
   \<and> gearman_state_pop_non_blocking (gearman_state_push_non_blocking g) =
       g\<lparr>options := (options g)\<lparr>stored_non_blocking := non_blocking (options g)\<rparr>\<rparr>"
  by (simp add: gearman_state_pop_non_blocking_def gearman_state_push_non_blocking_def)

text \<open>
  C4. A push stores the current \<open>non_blocking\<close> flag in \<open>stored_non_blocking\<close>, sets
  \<open>non_blocking\<close> to true, and changes nothing else: the two other option bits keep
  their values, and putting the old options back gives the old structure.
\<close>

theorem push_saves_and_sets:
  "stored_non_blocking (options (gearman_state_push_non_blocking g)) = non_blocking (options g)
   \<and> non_blocking (options (gearman_state_push_non_blocking g)) = True
   \<and> allocated (options (gearman_state_push_non_blocking g)) = allocated (options g)
   \<and> dont_track_packets (options (gearman_state_push_non_blocking g)) =
       dont_track_packets (options g)
   \<and> (gearman_state_push_non_blocking g)\<lparr>options := options g\<rparr> = g"
  by (simp add: gearman_state_push_non_blocking_def)

text \<open>
  C5. Pushes do not nest: after two pushes in a row the saved slot holds true, whatever
  the flag was at first, so the pop that follows leaves \<open>non_blocking\<close> true.
\<close>

theorem double_push_loses_first_save:
  "stored_non_blocking (options (gearman_state_push_non_blocking
       (gearman_state_push_non_blocking g))) = True
   \<and> non_blocking (options (gearman_state_pop_non_blocking
       (gearman_state_push_non_blocking (gearman_state_push_non_blocking g)))) = True"
  by (simp add: gearman_state_pop_non_blocking_def gearman_state_push_non_blocking_def)

text \<open>
  C10. A pop does not write the saved slot, and a second pop in a row changes nothing
  more: popping is idempotent.
\<close>

theorem pop_idempotent:
  "stored_non_blocking (options (gearman_state_pop_non_blocking g)) =
     stored_non_blocking (options g)
   \<and> gearman_state_pop_non_blocking (gearman_state_pop_non_blocking g) =
       gearman_state_pop_non_blocking g"
  by (simp add: gearman_state_pop_non_blocking_def)

section \<open>Option helpers\<close>

text \<open>
  C2. \<open>gearman_remove_options\<close> does what \<open>gearman_add_options\<close> does: whatever
  \<open>gearman_set_option\<close> is, both leave the structure that \<open>gearman_set_option\<close> leaves
  when called with the value true, so removing an option sets it and never clears it.
\<close>

theorem remove_options_same_as_add_options:
  "gearman_remove_options gearman_set_option g opts =
     gearman_add_options gearman_set_option g opts
   \<and> gearman_remove_options gearman_set_option g opts = snd (gearman_set_option g opts True)"
  by (simp add: gearman_remove_options_def gearman_add_options_def)

section \<open>Error accessors\<close>

text \<open>
  C3. \<open>gearman_state_error\<close> returns NULL exactly when the first byte of the error
  buffer is zero, and the buffer itself otherwise. On a buffer of at least one byte the
  first byte is zero exactly when the stored message is the empty string.
\<close>

theorem state_error_null_iff_empty:
  "(fst (gearman_state_error g) = None) = (last_error g ! 0 = NUL)
   \<and> (last_error g ! 0 \<noteq> NUL \<longrightarrow> fst (gearman_state_error g) = Some (last_error g))
   \<and> (last_error g \<noteq> [] \<longrightarrow>
        (fst (gearman_state_error g) = None) = (c_str (last_error g) = []))"
proof -
  have "last_error g \<noteq> [] \<longrightarrow> (last_error g ! 0 = NUL) = (c_str (last_error g) = [])"
    by (cases "last_error g") (simp_all add: c_str_def)
  then show ?thesis
    by (simp add: gearman_state_error_def)
qed

theorem state_error_null_iff_empty_witness:
  "fst (gearman_state_error (gearman_state_zero 8)) = None
   \<and> fst (gearman_state_error
         ((gearman_state_zero 8)\<lparr>last_error := ''oops'' @ [NUL, NUL, NUL, NUL]\<rparr>)) =
       Some (''oops'' @ [NUL, NUL, NUL, NUL])"
  using state_error_null_iff_empty [of "gearman_state_zero 8"]
    state_error_null_iff_empty
      [of "(gearman_state_zero 8)\<lparr>last_error := ''oops'' @ [NUL, NUL, NUL, NUL]\<rparr>"]
  by (simp add: gearman_state_zero_def c_str_def eval_nat_numeral)

text \<open>
  C6. \<open>gearman_state_errno\<close> returns the stored \<open>last_errno\<close> as it is and leaves the
  structure as it found it.
\<close>

theorem state_errno_verbatim:
  "fst (gearman_state_errno g) = last_errno g \<and> snd (gearman_state_errno g) = g"
  by (simp add: gearman_state_errno_def)

text \<open>
  C7. The four read accessors return the \<open>non_blocking\<close> bit, the
  \<open>stored_non_blocking\<close> bit, the error text (NULL for an empty buffer) and the error
  code, and each leaves the whole structure unchanged.
\<close>

theorem read_accessors_pure:
  "gearman_state_is_non_blocking g = (non_blocking (options g), g)
   \<and> gearman_state_is_stored_non_blocking g = (stored_non_blocking (options g), g)
   \<and> gearman_state_error g =
       (if last_error g ! 0 = NUL then None else Some (last_error g), g)
   \<and> gearman_state_errno g = (last_errno g, g)"
  by (simp add: gearman_state_is_non_blocking_def gearman_state_is_stored_non_blocking_def
      gearman_state_error_def gearman_state_errno_def)

section \<open>Setting the error string\<close>

lemma c_str_terminated: "NUL \<notin> set msg \<Longrightarrow> c_str (msg @ NUL # rest) = msg"
proof -
  assume "NUL \<notin> set msg"
  then have "takeWhile (\<lambda>c. c \<noteq> NUL) (msg @ NUL # rest) =
      msg @ takeWhile (\<lambda>c. c \<noteq> NUL) (NUL # rest)"
    by (intro takeWhile_append2) auto
  then show ?thesis by (simp add: c_str_def)
qed

lemma c_str_no_NUL: "NUL \<notin> set (take n (c_str s))"
  by (auto simp: c_str_def dest!: in_set_takeD set_takeWhileD)

lemma set_error_length:
  "last_error g \<noteq> [] \<Longrightarrow>
   length (last_error (gearman_state_set_error render g f fmt a)) = length (last_error g)"
  by (cases "last_error g") (auto simp: gearman_state_set_error_def Let_def)

lemma set_error_c_str:
  "c_str (last_error (gearman_state_set_error render g f fmt a)) =
   take (length (last_error g) - 1) (c_str (render f fmt a))"
  by (simp add: gearman_state_set_error_def Let_def c_str_terminated c_str_no_NUL)

lemma set_error_calls_length:
  "last_error g \<noteq> [] \<Longrightarrow>
   length (last_error (set_error_calls render g calls)) = length (last_error g)"
proof (induction calls arbitrary: g)
  case Nil
  then show ?case by simp
next
  case (Cons c calls)
  obtain f fmt a where c: "c = (f, fmt, a)" by (cases c)
  have "last_error (gearman_state_set_error render g f fmt a) \<noteq> []"
    using set_error_length [OF Cons.prems, of render f fmt a] Cons.prems by auto
  from Cons.IH [OF this] show ?case
    by (simp add: c set_error_length [OF Cons.prems])
qed

lemma set_error_calls_snoc:
  "set_error_calls render g (calls @ [(f, fmt, a)]) =
   gearman_state_set_error render (set_error_calls render g calls) f fmt a"
  by (induction calls arbitrary: g) auto

text \<open>
  C8. Take any formatter, any structure whose error buffer has at least one byte, and
  any sequence of \<open>gearman_state_set_error\<close> calls ending with the call
  \<open>(f, fmt, a)\<close>. Afterwards the buffer has the size it had (nothing was written past
  it), it contains a terminator, the stored string with its terminator fits in the
  buffer, and the stored string is the formatted message of the last call, cut to the
  capacity less one: nothing of the earlier calls or of the initial buffer shows in it,
  and a message shorter than the capacity is stored in full.
\<close>

theorem set_error_bounded_and_fresh:
  assumes "last_error g \<noteq> []"
  shows "length (last_error (set_error_calls render g (calls @ [(f, fmt, a)]))) =
           length (last_error g)
         \<and> NUL \<in> set (last_error (set_error_calls render g (calls @ [(f, fmt, a)])))
         \<and> length (c_str (last_error (set_error_calls render g (calls @ [(f, fmt, a)])))) + 1
             \<le> length (last_error g)
         \<and> c_str (last_error (set_error_calls render g (calls @ [(f, fmt, a)]))) =
             take (length (last_error g) - 1) (c_str (render f fmt a))
         \<and> (length (c_str (render f fmt a)) < length (last_error g) \<longrightarrow>
             c_str (last_error (set_error_calls render g (calls @ [(f, fmt, a)]))) =
               c_str (render f fmt a))"
proof -
  let ?g1 = "set_error_calls render g calls"
  let ?g2 = "set_error_calls render g (calls @ [(f, fmt, a)])"
  have len1: "length (last_error ?g1) = length (last_error g)"
    using assms by (rule set_error_calls_length)
  then have ne1: "last_error ?g1 \<noteq> []"
    using assms by auto
  have g2: "?g2 = gearman_state_set_error render ?g1 f fmt a"
    by (rule set_error_calls_snoc)
  have len2: "length (last_error ?g2) = length (last_error g)"
    using set_error_length [OF ne1, of render f fmt a] len1 g2 by simp
  have str: "c_str (last_error ?g2) = take (length (last_error g) - 1) (c_str (render f fmt a))"
    using set_error_c_str [of render ?g1 f fmt a] len1 g2 by simp
  have short: "length (c_str (last_error ?g2)) + 1 \<le> length (last_error g)"
    using assms by (simp add: str) (cases "last_error g"; simp)
  have "c_str (last_error ?g2) \<noteq> last_error ?g2"
    using short len2 by auto
  then have nul: "NUL \<in> set (last_error ?g2)"
    by (auto simp: c_str_def takeWhile_eq_all_conv)
  have full: "length (c_str (render f fmt a)) < length (last_error g) \<longrightarrow>
      c_str (last_error ?g2) = c_str (render f fmt a)"
    by (simp add: str)
  from len2 nul short str full show ?thesis by simp
qed

theorem set_error_bounded_and_fresh_witness:
  "last_error (gearman_state_zero 6) \<noteq> []
   \<and> c_str (last_error (set_error_calls (\<lambda>function format args. function @ '':'' @ format)
        (gearman_state_zero 6)
        ([(''f'', ''long message'', [] :: nat list)] @ [(''g'', ''x'', [])]))) = ''g:x''
   \<and> c_str (last_error (set_error_calls (\<lambda>function format args. function @ '':'' @ format)
        (gearman_state_zero 6)
        ([(''g'', ''x'', [] :: nat list)] @ [(''f'', ''long message'', [])]))) = ''f:lon''"
proof -
  have ne: "last_error (gearman_state_zero 6) \<noteq> []"
    by (simp add: gearman_state_zero_def)
  have len: "length (last_error (gearman_state_zero 6)) = 6"
    by (simp add: gearman_state_zero_def)
  show ?thesis
    using ne
      set_error_bounded_and_fresh [OF ne,
        of "\<lambda>function format args. function @ '':'' @ format"
           "[(''f'', ''long message'', [] :: nat list)]" "''g''" "''x''" "[]"]
      set_error_bounded_and_fresh [OF ne,
        of "\<lambda>function format args. function @ '':'' @ format"
           "[(''g'', ''x'', [] :: nat list)]" "''f''" "''long message''" "[]"]
    by (simp add: len c_str_def)
qed

section \<open>Cloning\<close>

text \<open>
  C9. \<open>gearman_state_clone\<close> returns a structure exactly when it has storage (the
  caller's, or memory it could allocate) and its initialisation succeeds. Every structure
  it returns has the option flags, the timeout, the verbosity threshold and the callback
  registrations (log, event watch, workload allocation and release, each function with
  its context) of the source, and empty connection and packet lists with both counts
  zero, whatever the source's lists and counts and whatever the storage held before.
\<close>

theorem clone_copies_configuration:
  "(gearman_state_clone gearman malloc_result init_ok from \<noteq> None) =
     (init_ok \<and> (gearman \<noteq> None \<or> malloc_result \<noteq> None))
   \<and> (\<forall>g'. gearman_state_clone gearman malloc_result init_ok from = Some g' \<longrightarrow>
         options g' = options from
         \<and> timeout g' = timeout from
         \<and> verbose g' = verbose from
         \<and> log_fn g' = log_fn from \<and> log_context g' = log_context from
         \<and> event_watch_fn g' = event_watch_fn from
         \<and> event_watch_context g' = event_watch_context from
         \<and> workload_malloc_fn g' = workload_malloc_fn from
         \<and> workload_malloc_context g' = workload_malloc_context from
         \<and> workload_free_fn g' = workload_free_fn from
         \<and> workload_free_context g' = workload_free_context from
         \<and> con_list g' = [] \<and> packet_list g' = []
         \<and> con_count g' = 0 \<and> packet_count g' = 0)"
proof (cases "case gearman of Some mem \<Rightarrow> Some mem | None \<Rightarrow> malloc_result")
  case None
  then have "gearman = None" "malloc_result = None"
    by (simp_all split: option.splits)
  then show ?thesis
    by (simp add: gearman_state_clone_def)
next
  case (Some mem)
  then have "gearman \<noteq> None \<or> malloc_result \<noteq> None"
    by (auto split: option.splits)
  with Some show ?thesis
    by (cases init_ok) (auto simp: gearman_state_clone_def)
qed

theorem clone_copies_configuration_witness:
  "\<exists>g'. gearman_state_clone None (Some (gearman_state_zero 4)) True
          ((gearman_state_zero 4)\<lparr>options :=
               \<lparr>allocated = True, dont_track_packets = True,
                non_blocking = True, stored_non_blocking = False\<rparr>,
             verbose := 2, con_count := 1, packet_count := 2, timeout := 5000,
             con_list := [undefined], packet_list := [undefined, undefined],
             log_fn := Some 4096, log_context := Some 8192,
             workload_malloc_fn := Some 12288\<rparr>) = Some g'
      \<and> options g' = \<lparr>allocated = True, dont_track_packets = True,
                       non_blocking = True, stored_non_blocking = False\<rparr>
      \<and> timeout g' = 5000 \<and> verbose g' = 2
      \<and> log_fn g' = Some 4096 \<and> log_context g' = Some 8192
      \<and> workload_malloc_fn g' = Some 12288 \<and> workload_free_fn g' = None
      \<and> con_list g' = [] \<and> packet_list g' = []
      \<and> con_count g' = 0 \<and> packet_count g' = 0"
proof -
  let ?src = "(gearman_state_zero 4)\<lparr>options :=
               \<lparr>allocated = True, dont_track_packets = True,
                non_blocking = True, stored_non_blocking = False\<rparr>,
             verbose := 2, con_count := 1, packet_count := 2, timeout := 5000,
             con_list := [undefined], packet_list := [undefined, undefined],
             log_fn := Some 4096, log_context := Some 8192,
             workload_malloc_fn := Some 12288\<rparr>"
  note inst = clone_copies_configuration
    [of None "Some (gearman_state_zero 4)" True ?src]
  from inst have "gearman_state_clone None (Some (gearman_state_zero 4)) True ?src \<noteq> None"
    by simp
  then obtain g' where g':
    "gearman_state_clone None (Some (gearman_state_zero 4)) True ?src = Some g'"
    by auto
  with inst have "options g' = options ?src \<and> timeout g' = timeout ?src
      \<and> verbose g' = verbose ?src
      \<and> log_fn g' = log_fn ?src \<and> log_context g' = log_context ?src
      \<and> workload_malloc_fn g' = workload_malloc_fn ?src
      \<and> workload_free_fn g' = workload_free_fn ?src
      \<and> con_list g' = [] \<and> packet_list g' = []
      \<and> con_count g' = 0 \<and> packet_count g' = 0"
    by simp
  then have "options g' = \<lparr>allocated = True, dont_track_packets = True,
                       non_blocking = True, stored_non_blocking = False\<rparr>
      \<and> timeout g' = 5000 \<and> verbose g' = 2
      \<and> log_fn g' = Some 4096 \<and> log_context g' = Some 8192
      \<and> workload_malloc_fn g' = Some 12288 \<and> workload_free_fn g' = None
      \<and> con_list g' = [] \<and> packet_list g' = []
      \<and> con_count g' = 0 \<and> packet_count g' = 0"
    by (simp add: gearman_state_zero_def)
  with g' show ?thesis by blast
qed

end
